theory Spec2Isabelle
  imports Main "HOL-Library.Sublist"
begin

section \<open>The CLIP OS Buildbot master configuration (master.py)\<close>

text \<open>
  \<^verbatim>\<open>master.py\<close> is a configuration script: it runs once, top to bottom, and fills the
  dictionary \<^verbatim>\<open>BuildmasterConfig\<close> with workers, builders and schedulers. The model
  follows the script statement by statement. Every module-level variable of the script
  is a definition of the same name; the two accumulating \<^verbatim>\<open>for\<close> loops are folds over
  an explicit loop state.

  The script imports the package \<^verbatim>\<open>clipos\<close>, which is not part of the file. What the
  script reads from it is taken as a parameter (record \<open>clipos\<close> below): the dictionary
  \<^verbatim>\<open>clipos.workers.DockerLatentWorker.FLAVORS\<close> and the name that the constructor
  \<^verbatim>\<open>clipos.workers.DockerLatentWorker(flavor, privileged, ...)\<close> gives to a worker.

  Not modelled, because no statement below reads them: the texts of descriptions, labels
  and button names, the codebases of the schedulers (the repository and branch a build
  checks out), the janitor, and the connection settings passed to the workers and the
  factories (\<^verbatim>\<open>setup\<close>).
\<close>

subsection \<open>Data\<close>

text \<open>
  The part of the package \<^verbatim>\<open>clipos\<close> the script depends on. \<open>FLAVORS\<close> is a Python
  dictionary from a flavor to its properties, themselves a dictionary (of which the
  script reads \<^verbatim>\<open>props['description']\<close> only). Both are kept as association lists, the
  outer one in iteration order. A dictionary has no duplicate keys, which is the
  hypothesis \<open>distinct (map fst (FLAVORS cl))\<close> where a statement needs it.
\<close>

record clipos =
  FLAVORS :: "(string \<times> (string \<times> string) list) list"
  latent_worker_name :: "string \<Rightarrow> bool \<Rightarrow> string"

text \<open>The two ways the script can stop with an exception: a missing key, an unbound name.\<close>

datatype error = KeyError string | NameError string

text \<open>A \<^verbatim>\<open>clipos.workers.DockerLatentWorker\<close> object, with the attributes the script reads.\<close>

record DockerLatentWorker =
  worker_name :: string
  flavor :: string
  privileged :: bool
  max_builds :: nat

datatype worker = LocalWorker string | Latent DockerLatentWorker

datatype build_factory =
    BuildDockerImage string
  | RepoSyncFromScratchAndArchive
  | ClipOsProductBuildBuildFactory

text \<open>\<^verbatim>\<open>util.BuilderConfig(name=..., tags=..., workernames=..., factory=...)\<close>\<close>

record BuilderConfig =
  name :: string
  tags :: "string list"
  workernames :: "string list"
  factory :: build_factory

text \<open>Values of scheduler properties and of parameter defaults: Python booleans and strings.\<close>

datatype pvalue = PBool bool | PStr string

text \<open>
  The parameters of a \<^verbatim>\<open>ForceScheduler\<close>: name and default (and the choices of a
  \<^verbatim>\<open>ChoiceStringParameter\<close>, the fields of a \<^verbatim>\<open>NestedParameter\<close>). The default of the
  \<^verbatim>\<open>TextParameter\<close> is a sample manifest and is left out.
\<close>

datatype parameter =
    FixedParameter string pvalue
  | BooleanParameter string bool
  | TextParameter string
  | ChoiceStringParameter string "string list" string
  | NestedParameter string "parameter list"

text \<open>
  \<^verbatim>\<open>schedulers.Nightly(name, builderNames, dayOfWeek, hour, minute, properties)\<close> and
  \<^verbatim>\<open>schedulers.ForceScheduler(name, builderNames, properties)\<close>. The properties of a
  \<^verbatim>\<open>Nightly\<close> scheduler are a dictionary of fixed values, those of a
  \<^verbatim>\<open>ForceScheduler\<close> a list of parameters the caller may fill in.
\<close>

datatype scheduler =
    Nightly (sched_name: string) (builderNames: "string list")
      (dayOfWeek: string) (hour: nat) (minute: nat) (properties: "(string \<times> pvalue) list")
  | ForceScheduler (sched_name: string) (builderNames: "string list")
      (parameters: "parameter list")

record BuildmasterConfig =
  workers :: "worker list"
  builders :: "BuilderConfig list"
  schedulers :: "scheduler list"

subsection \<open>Workers\<close>

definition docker_operations_worker :: worker where
  "docker_operations_worker = LocalWorker ''_docker-client-localworker''"

fun name_of_worker :: "worker \<Rightarrow> string" where
  "name_of_worker (LocalWorker n) = n"
| "name_of_worker (Latent w) = worker_name w"

definition reference_worker_flavor :: string where
  "reference_worker_flavor = ''debian-sid''"

text \<open>
  The constructor call of the loop body: the name comes from the package, the other
  attributes are the arguments.
\<close>

definition new_DockerLatentWorker :: "clipos \<Rightarrow> string \<Rightarrow> bool \<Rightarrow> nat \<Rightarrow> DockerLatentWorker" where
  "new_DockerLatentWorker cl fl pr mb =
     \<lparr>worker_name = latent_worker_name cl fl pr, flavor = fl, privileged = pr, max_builds = mb\<rparr>"

text \<open>The three lists the worker loop appends to.\<close>

record worker_lists =
  all_workers :: "DockerLatentWorker list"
  unprivileged_reference :: "DockerLatentWorker list"
  privileged_reference :: "DockerLatentWorker list"

text \<open>
  The body of the inner loop \<^verbatim>\<open>for privileged in [False, True]\<close>: build the worker,
  append it to the list of all workers and, for the reference flavor, to the privileged
  or to the unprivileged reference list.
\<close>

definition worker_loop_body :: "clipos \<Rightarrow> string \<Rightarrow> bool \<Rightarrow> worker_lists \<Rightarrow> worker_lists" where
  "worker_loop_body cl fl pr st =
     (let w = new_DockerLatentWorker cl fl pr 5;
          st1 = st\<lparr>all_workers := all_workers st @ [w]\<rparr>
      in if fl = reference_worker_flavor
         then (if pr then st1\<lparr>privileged_reference := privileged_reference st1 @ [w]\<rparr>
               else st1\<lparr>unprivileged_reference := unprivileged_reference st1 @ [w]\<rparr>)
         else st1)"

text \<open>
  The body of the outer loop \<^verbatim>\<open>for flavor in FLAVORS\<close> runs the inner loop; the outer
  loop starts from the three empty lists.
\<close>

definition flavor_loop_body :: "clipos \<Rightarrow> string \<Rightarrow> worker_lists \<Rightarrow> worker_lists" where
  "flavor_loop_body cl fl st = fold (worker_loop_body cl fl) [False, True] st"

definition worker_loop :: "clipos \<Rightarrow> worker_lists" where
  "worker_loop cl =
     fold (flavor_loop_body cl) (map fst (FLAVORS cl))
       \<lparr>all_workers = [], unprivileged_reference = [], privileged_reference = []\<rparr>"

definition all_clipos_docker_latent_workers :: "clipos \<Rightarrow> DockerLatentWorker list" where
  "all_clipos_docker_latent_workers cl = all_workers (worker_loop cl)"

definition unprivileged_reference_workers :: "clipos \<Rightarrow> DockerLatentWorker list" where
  "unprivileged_reference_workers cl = unprivileged_reference (worker_loop cl)"

definition privileged_reference_workers :: "clipos \<Rightarrow> DockerLatentWorker list" where
  "privileged_reference_workers cl = privileged_reference (worker_loop cl)"

definition c_workers :: "clipos \<Rightarrow> worker list" where
  "c_workers cl = docker_operations_worker # map Latent (all_clipos_docker_latent_workers cl)"

subsection \<open>Builders\<close>

text \<open>
  One builder of a Docker image per entry of \<open>FLAVORS\<close>
  (\<^verbatim>\<open>for flavor, props in FLAVORS.items()\<close>), always on the worker that has the Docker
  socket.
\<close>

definition docker_buildenv_image_builder :: "string \<Rightarrow> BuilderConfig" where
  "docker_buildenv_image_builder fl =
     \<lparr>name = ''docker-worker-image env:'' @ fl,
      tags = [''docker-worker-image'', ''docker-env:'' @ fl],
      workernames = [name_of_worker docker_operations_worker],
      factory = BuildDockerImage fl\<rparr>"

definition docker_buildenv_image_builders :: "clipos \<Rightarrow> BuilderConfig list" where
  "docker_buildenv_image_builders cl =
     map (\<lambda>(fl, props). docker_buildenv_image_builder fl) (FLAVORS cl)"

definition repo_sync_builder :: "clipos \<Rightarrow> BuilderConfig" where
  "repo_sync_builder cl =
     \<lparr>name = ''repo-sync'',
      tags = [''repo-sync'', ''update-artifacts''],
      workernames =
        map worker_name
          (filter (\<lambda>w. flavor w = reference_worker_flavor \<and> \<not> privileged w)
             (all_clipos_docker_latent_workers cl)),
      factory = RepoSyncFromScratchAndArchive\<rparr>"

text \<open>
  The body of the loop \<^verbatim>\<open>for flavor in FLAVORS\<close> that builds the CLIP OS builders. The
  loop state is the variable \<^verbatim>\<open>reference_clipos_builder\<close> (unbound until the reference
  flavor comes by: \<open>None\<close>) and the list \<^verbatim>\<open>clipos_on_all_flavors_builders\<close>.
\<close>

definition clipos_builder :: "clipos \<Rightarrow> string \<Rightarrow> BuilderConfig" where
  "clipos_builder cl fl =
     \<lparr>name = (if fl \<noteq> reference_worker_flavor then ''clipos'' @ '' env:'' @ fl else ''clipos''),
      tags = [''clipos'', ''docker-env:'' @ fl],
      workernames =
        map worker_name
          (filter (\<lambda>w. flavor w = fl \<and> privileged w) (all_clipos_docker_latent_workers cl)),
      factory = ClipOsProductBuildBuildFactory\<rparr>"

definition clipos_loop_body ::
  "clipos \<Rightarrow> string \<Rightarrow> BuilderConfig option \<times> BuilderConfig list
     \<Rightarrow> BuilderConfig option \<times> BuilderConfig list" where
  "clipos_loop_body cl fl st =
     (let builder = clipos_builder cl fl
      in ((if fl = reference_worker_flavor then Some builder else fst st), snd st @ [builder]))"

definition clipos_loop :: "clipos \<Rightarrow> BuilderConfig option \<times> BuilderConfig list" where
  "clipos_loop cl = fold (clipos_loop_body cl) (map fst (FLAVORS cl)) (None, [])"

definition clipos_on_all_flavors_builders :: "clipos \<Rightarrow> BuilderConfig list" where
  "clipos_on_all_flavors_builders cl = snd (clipos_loop cl)"

text \<open>
  \<open>None\<close> when the loop never bound the variable: reading it then raises
  \<^verbatim>\<open>NameError\<close> (see \<open>master\<close> below).
\<close>

definition reference_clipos_builder :: "clipos \<Rightarrow> BuilderConfig option" where
  "reference_clipos_builder cl = fst (clipos_loop cl)"

definition clipos_ondemand_builder :: "clipos \<Rightarrow> BuilderConfig" where
  "clipos_ondemand_builder cl =
     \<lparr>name = ''clipos ondemand'',
      tags = [''clipos'', ''on-demand'', ''docker-env:'' @ reference_worker_flavor],
      workernames = map worker_name (privileged_reference_workers cl),
      factory = ClipOsProductBuildBuildFactory\<rparr>"

definition c_builders :: "clipos \<Rightarrow> BuilderConfig list" where
  "c_builders cl =
     docker_buildenv_image_builders cl @ [repo_sync_builder cl]
     @ clipos_on_all_flavors_builders cl @ [clipos_ondemand_builder cl]"

subsection \<open>Schedulers\<close>

text \<open>
  The schedulers that read \<^verbatim>\<open>reference_clipos_builder\<close> take the builder the variable
  is bound to as the argument \<open>ref\<close>.
\<close>

definition repo_sync_nightly_sched :: "clipos \<Rightarrow> scheduler" where
  "repo_sync_nightly_sched cl =
     Nightly ''repo-sync-nightly-update'' [name (repo_sync_builder cl)] ''1,2,3,4,5'' 0 0
       [(''cleanup_workspace'', PBool True)]"

definition clipos_incremental_build_intraday_sched :: "clipos \<Rightarrow> BuilderConfig \<Rightarrow> scheduler" where
  "clipos_incremental_build_intraday_sched cl ref =
     Nightly ''clipos-master-intraday-incremental-build'' [name ref] ''1,2,3,4,5'' 12 30
       [(''cleanup_workspace'', PBool True),
        (''force_repo_quicksync_artifacts_download'', PBool False),
        (''buildername_providing_repo_quicksync_artifacts'', PStr (name (repo_sync_builder cl))),
        (''produce_sdks_artifacts'', PBool False),
        (''reuse_sdks_artifacts'', PBool True),
        (''buildername_providing_sdks_artifacts'', PStr (name ref)),
        (''produce_cache_artifacts'', PBool False),
        (''reuse_cache_artifacts'', PBool True),
        (''buildername_providing_cache_artifacts'', PStr (name ref)),
        (''produce_build_artifacts'', PBool True)]"

definition clipos_build_nightly_sched :: "clipos \<Rightarrow> BuilderConfig \<Rightarrow> scheduler" where
  "clipos_build_nightly_sched cl ref =
     Nightly ''clipos-master-nightly-build'' [name ref] ''1,2,3,4,5'' 0 45
       [(''cleanup_workspace'', PBool True),
        (''force_repo_quicksync_artifacts_download'', PBool False),
        (''buildername_providing_repo_quicksync_artifacts'', PStr (name (repo_sync_builder cl))),
        (''produce_sdks_artifacts'', PBool True),
        (''reuse_sdks_artifacts'', PBool False),
        (''produce_cache_artifacts'', PBool True),
        (''reuse_cache_artifacts'', PBool False),
        (''produce_build_artifacts'', PBool True)]"

definition clipos_build_weekly_sched :: "clipos \<Rightarrow> scheduler" where
  "clipos_build_weekly_sched cl =
     Nightly ''clipos-master-weekly-build'' (map name (clipos_on_all_flavors_builders cl))
       ''6'' 12 0
       [(''cleanup_workspace'', PBool True),
        (''force_repo_quicksync_artifacts_download'', PBool True),
        (''buildername_providing_repo_quicksync_artifacts'', PStr (name (repo_sync_builder cl))),
        (''produce_sdks_artifacts'', PBool True),
        (''reuse_sdks_artifacts'', PBool False),
        (''produce_cache_artifacts'', PBool True),
        (''reuse_cache_artifacts'', PBool False),
        (''produce_build_artifacts'', PBool True)]"

text \<open>No \<^verbatim>\<open>properties\<close> argument here: the scheduler sets none.\<close>

definition docker_buildenv_image_rebuild_weekly_sched :: "clipos \<Rightarrow> scheduler" where
  "docker_buildenv_image_rebuild_weekly_sched cl =
     Nightly ''docker-workers-weekly-rebuild'' (map name (docker_buildenv_image_builders cl))
       ''6'' 9 0 []"

definition docker_buildenv_image_rebuild_force_sched :: "clipos \<Rightarrow> scheduler" where
  "docker_buildenv_image_rebuild_force_sched cl =
     ForceScheduler ''force-docker-buildenv-image''
       (map name (docker_buildenv_image_builders cl)) []"

definition repo_sync_force_sched :: "clipos \<Rightarrow> scheduler" where
  "repo_sync_force_sched cl =
     ForceScheduler ''force-repo-sync-clipos'' [name (repo_sync_builder cl)]
       [FixedParameter ''cleanup_workspace'' (PBool True)]"

definition clipos_custom_build_force_sched :: "clipos \<Rightarrow> BuilderConfig \<Rightarrow> scheduler" where
  "clipos_custom_build_force_sched cl ref =
     ForceScheduler ''clipos-custom-build'' [name (clipos_ondemand_builder cl)]
       [FixedParameter ''buildername_providing_repo_quicksync_artifacts''
          (PStr (name (repo_sync_builder cl))),
        NestedParameter '''' [
          NestedParameter '''' [
            BooleanParameter ''use_local_manifest'' False,
            TextParameter ''local_manifest_xml''],
          NestedParameter '''' [
            BooleanParameter ''cleanup_workspace'' True,
            BooleanParameter ''force_repo_quicksync_artifacts_download'' False],
          NestedParameter '''' [
            BooleanParameter ''produce_sdks_artifacts'' False,
            BooleanParameter ''reuse_sdks_artifacts'' True,
            ChoiceStringParameter ''buildername_providing_sdks_artifacts''
              (map name (clipos_on_all_flavors_builders cl)) (name ref),
            BooleanParameter ''produce_cache_artifacts'' False,
            BooleanParameter ''reuse_cache_artifacts'' True,
            ChoiceStringParameter ''buildername_providing_cache_artifacts''
              (map name (clipos_on_all_flavors_builders cl)) (name ref),
            BooleanParameter ''produce_build_artifacts'' False]]]"

definition c_schedulers :: "clipos \<Rightarrow> BuilderConfig \<Rightarrow> scheduler list" where
  "c_schedulers cl ref =
     [clipos_incremental_build_intraday_sched cl ref,
      repo_sync_nightly_sched cl,
      clipos_build_nightly_sched cl ref,
      clipos_build_weekly_sched cl,
      docker_buildenv_image_rebuild_weekly_sched cl,
      repo_sync_force_sched cl,
      docker_buildenv_image_rebuild_force_sched cl,
      clipos_custom_build_force_sched cl ref]"

subsection \<open>The whole script\<close>

text \<open>
  The script can stop at two places. The loop that builds the Docker image builders
  reads \<^verbatim>\<open>props['description']\<close> for the description of the builder (the text itself is
  not modelled) and raises \<^verbatim>\<open>KeyError\<close> when the properties of a flavor have no such
  key. Later, the first scheduler that reads \<^verbatim>\<open>reference_clipos_builder\<close> raises
  \<^verbatim>\<open>NameError\<close> when the loop over the flavors never bound it, that is when the
  reference flavor is not a key of \<open>FLAVORS\<close>. In both cases the script ends without a
  configuration.
\<close>

definition master :: "clipos \<Rightarrow> error + BuildmasterConfig" where
  "master cl =
     (if \<exists>(fl, props) \<in> set (FLAVORS cl). map_of props ''description'' = None
      then Inl (KeyError ''description'')
      else case reference_clipos_builder cl of
        None \<Rightarrow> Inl (NameError ''reference_clipos_builder'')
      | Some ref \<Rightarrow>
          Inr \<lparr>workers = c_workers cl, builders = c_builders cl,
               schedulers = c_schedulers cl ref\<rparr>)"

subsection \<open>Reading properties and parameters\<close>

text \<open>
  The parameters a \<^verbatim>\<open>ForceScheduler\<close> offers are the leaves of its parameter list: a
  \<^verbatim>\<open>NestedParameter\<close> only groups its fields (every one in the script has the empty
  name, so that no field name gets a prefix).
\<close>

fun leaf_parameters :: "parameter \<Rightarrow> parameter list" where
  "leaf_parameters (NestedParameter n fs) = concat (map leaf_parameters fs)"
| "leaf_parameters p = [p]"

fun parameter_name :: "parameter \<Rightarrow> string" where
  "parameter_name (FixedParameter n d) = n"
| "parameter_name (BooleanParameter n d) = n"
| "parameter_name (TextParameter n) = n"
| "parameter_name (ChoiceStringParameter n cs d) = n"
| "parameter_name (NestedParameter n fs) = n"

fun parameter_default :: "parameter \<Rightarrow> pvalue option" where
  "parameter_default (FixedParameter n d) = Some d"
| "parameter_default (BooleanParameter n d) = Some (PBool d)"
| "parameter_default (TextParameter n) = None"
| "parameter_default (ChoiceStringParameter n cs d) = Some (PStr d)"
| "parameter_default (NestedParameter n fs) = None"

text \<open>
  The parameters a scheduler offers to the caller (none for a periodic scheduler), and the
  property keys of a scheduler: the keys of the dictionary of a periodic scheduler, the
  names of the parameters offered by a forced one. \<open>property_defaults\<close> pairs each key
  with the value a build gets when nobody overrides it.
\<close>

fun offered_parameters :: "scheduler \<Rightarrow> parameter list" where
  "offered_parameters (Nightly n bs d h m props) = []"
| "offered_parameters (ForceScheduler n bs ps) = concat (map leaf_parameters ps)"

fun property_defaults :: "scheduler \<Rightarrow> (string \<times> pvalue option) list" where
  "property_defaults (Nightly n bs d h m props) = map (\<lambda>(k, v). (k, Some v)) props"
| "property_defaults (ForceScheduler n bs ps) =
     map (\<lambda>p. (parameter_name p, parameter_default p))
       (offered_parameters (ForceScheduler n bs ps))"

definition property_names :: "scheduler \<Rightarrow> string list" where
  "property_names s = map fst (property_defaults s)"

definition is_forced :: "scheduler \<Rightarrow> bool" where
  "is_forced s = (case s of ForceScheduler n bs ps \<Rightarrow> True | _ \<Rightarrow> False)"

subsection \<open>Auxiliary definitions\<close>

text \<open>The two workers one round of the outer worker loop adds for a flavor.\<close>

definition workers_of_flavor :: "clipos \<Rightarrow> string \<Rightarrow> DockerLatentWorker list" where
  "workers_of_flavor cl fl =
     [new_DockerLatentWorker cl fl False 5, new_DockerLatentWorker cl fl True 5]"



text \<open>
  A sample instance of the package, used to run the script on: two flavors, the reference
  flavor among them, and worker names made of the flavor and the privilege.
\<close>

definition example_clipos :: clipos where
  "example_clipos =
     \<lparr>FLAVORS = [(''debian-sid'', [(''description'', ''Debian sid'')]),
                 (''fedora'', [(''description'', ''Fedora'')])],
      latent_worker_name =
        (\<lambda>fl pr. fl @ (if pr then ''-privileged'' else ''-unprivileged''))\<rparr>"

text \<open>The configuration the script ends with on the sample package (see \<open>master_example\<close>).\<close>

definition example_config :: BuildmasterConfig where
  "example_config =
     \<lparr>workers = c_workers example_clipos, builders = c_builders example_clipos,
      schedulers = c_schedulers example_clipos
        (clipos_builder example_clipos reference_worker_flavor)\<rparr>"

section \<open>The loops in closed form\<close>

lemma flavor_loop_body_eq:
  "flavor_loop_body cl fl st =
     \<lparr>all_workers = all_workers st @ workers_of_flavor cl fl,
      unprivileged_reference = unprivileged_reference st @
         filter (\<lambda>w. flavor w = reference_worker_flavor \<and> \<not> privileged w)
           (workers_of_flavor cl fl),
      privileged_reference = privileged_reference st @
         filter (\<lambda>w. flavor w = reference_worker_flavor \<and> privileged w)
           (workers_of_flavor cl fl)\<rparr>"
  by (simp add: flavor_loop_body_def worker_loop_body_def workers_of_flavor_def
      new_DockerLatentWorker_def Let_def)

lemma worker_loop_fold:
  "fold (flavor_loop_body cl) fls st =
     \<lparr>all_workers = all_workers st @ concat (map (workers_of_flavor cl) fls),
      unprivileged_reference = unprivileged_reference st @
         filter (\<lambda>w. flavor w = reference_worker_flavor \<and> \<not> privileged w)
           (concat (map (workers_of_flavor cl) fls)),
      privileged_reference = privileged_reference st @
         filter (\<lambda>w. flavor w = reference_worker_flavor \<and> privileged w)
           (concat (map (workers_of_flavor cl) fls))\<rparr>"
proof (induction fls arbitrary: st)
  case Nil
  show ?case by simp
next
  case (Cons fl fls)
  have "fold (flavor_loop_body cl) (fl # fls) st =
          fold (flavor_loop_body cl) fls (flavor_loop_body cl fl st)"
    by simp
  also note Cons.IH
  finally have unfolded: "fold (flavor_loop_body cl) (fl # fls) st =
     \<lparr>all_workers =
        all_workers (flavor_loop_body cl fl st) @ concat (map (workers_of_flavor cl) fls),
      unprivileged_reference =
        unprivileged_reference (flavor_loop_body cl fl st) @
        filter (\<lambda>w. flavor w = reference_worker_flavor \<and> \<not> privileged w)
          (concat (map (workers_of_flavor cl) fls)),
      privileged_reference =
        privileged_reference (flavor_loop_body cl fl st) @
        filter (\<lambda>w. flavor w = reference_worker_flavor \<and> privileged w)
          (concat (map (workers_of_flavor cl) fls))\<rparr>" .
  show ?case
    unfolding unfolded by (simp add: flavor_loop_body_eq)
qed

lemma all_workers_eq:
  "all_clipos_docker_latent_workers cl =
     concat (map (workers_of_flavor cl) (map fst (FLAVORS cl)))"
  by (simp add: all_clipos_docker_latent_workers_def worker_loop_def worker_loop_fold)

lemma privileged_reference_workers_eq:
  "privileged_reference_workers cl =
     filter (\<lambda>w. flavor w = reference_worker_flavor \<and> privileged w)
       (all_clipos_docker_latent_workers cl)"
  by (simp add: privileged_reference_workers_def all_clipos_docker_latent_workers_def
      worker_loop_def worker_loop_fold)

lemma unprivileged_reference_workers_eq:
  "unprivileged_reference_workers cl =
     filter (\<lambda>w. flavor w = reference_worker_flavor \<and> \<not> privileged w)
       (all_clipos_docker_latent_workers cl)"
  by (simp add: unprivileged_reference_workers_def all_clipos_docker_latent_workers_def
      worker_loop_def worker_loop_fold)

lemma clipos_loop_fold:
  "fold (clipos_loop_body cl) fls st =
     ((if reference_worker_flavor \<in> set fls
       then Some (clipos_builder cl reference_worker_flavor) else fst st),
      snd st @ map (clipos_builder cl) fls)"
  by (induction fls arbitrary: st) (auto simp: clipos_loop_body_def Let_def)

lemma clipos_on_all_flavors_builders_eq:
  "clipos_on_all_flavors_builders cl = map (clipos_builder cl) (map fst (FLAVORS cl))"
  by (simp add: clipos_on_all_flavors_builders_def clipos_loop_def clipos_loop_fold)

lemma reference_clipos_builder_eq:
  "reference_clipos_builder cl =
     (if reference_worker_flavor \<in> fst ` set (FLAVORS cl)
      then Some (clipos_builder cl reference_worker_flavor) else None)"
  by (simp add: reference_clipos_builder_def clipos_loop_def clipos_loop_fold)

section \<open>The script run on the sample package\<close>

lemma all_workers_example:
  "all_clipos_docker_latent_workers example_clipos =
     [\<lparr>worker_name = ''debian-sid-unprivileged'', flavor = ''debian-sid'',
        privileged = False, max_builds = 5\<rparr>,
      \<lparr>worker_name = ''debian-sid-privileged'', flavor = ''debian-sid'',
        privileged = True, max_builds = 5\<rparr>,
      \<lparr>worker_name = ''fedora-unprivileged'', flavor = ''fedora'',
        privileged = False, max_builds = 5\<rparr>,
      \<lparr>worker_name = ''fedora-privileged'', flavor = ''fedora'',
        privileged = True, max_builds = 5\<rparr>]"
  by (simp add: all_clipos_docker_latent_workers_def worker_loop_def flavor_loop_body_def
      worker_loop_body_def new_DockerLatentWorker_def example_clipos_def
      reference_worker_flavor_def Let_def)

section \<open>The catalogue of latent workers\<close>

lemma identities_eq:
  "map (\<lambda>w. (flavor w, privileged w)) (all_clipos_docker_latent_workers cl) =
     concat (map (\<lambda>fl. [(fl, False), (fl, True)]) (map fst (FLAVORS cl)))"
  by (simp add: all_workers_eq workers_of_flavor_def new_DockerLatentWorker_def
      map_concat comp_def)

lemma distinct_identities:
  "distinct fls \<Longrightarrow> distinct (concat (map (\<lambda>fl. [(fl, False), (fl, True)]) fls))"
  by (induction fls) auto

lemma set_identities:
  "set (concat (map (\<lambda>fl. [(fl, False), (fl, True)]) fls)) = set fls \<times> UNIV"
  by (induction fls) auto

lemma filter_flavor_absent:
  "fl \<notin> set fls \<Longrightarrow>
   filter (\<lambda>w. flavor w = fl) (concat (map (workers_of_flavor cl) fls)) = []"
  by (induction fls) (auto simp: workers_of_flavor_def new_DockerLatentWorker_def)

lemma filter_flavor_present:
  "distinct fls \<Longrightarrow> fl \<in> set fls \<Longrightarrow>
   filter (\<lambda>w. flavor w = fl) (concat (map (workers_of_flavor cl) fls)) =
     workers_of_flavor cl fl"
proof (induction fls)
  case Nil
  then show ?case by simp
next
  case (Cons a fls)
  show ?case
  proof (cases "a = fl")
    case True
    with Cons.prems have "fl \<notin> set fls" by simp
    then show ?thesis
      using True by (simp add: filter_flavor_absent)
        (simp add: workers_of_flavor_def new_DockerLatentWorker_def)
  next
    case False
    with Cons show ?thesis
      by (simp add: workers_of_flavor_def new_DockerLatentWorker_def)
  qed
qed

text \<open>
  C8. The list of latent workers built by the worker loop holds one worker per pair of a
  flavor and a privilege: no two of its workers agree on both flavor and privilege, every
  pair of a flavor of \<open>FLAVORS\<close> and a privilege occurs, and the workers of one flavor
  are exactly two, an unprivileged one and a privileged one.
\<close>

theorem worker_catalog_one_per_identity:
  assumes "distinct (map fst (FLAVORS cl))"
  shows "distinct (map (\<lambda>w. (flavor w, privileged w)) (all_clipos_docker_latent_workers cl)) \<and>
         set (map (\<lambda>w. (flavor w, privileged w)) (all_clipos_docker_latent_workers cl)) =
           fst ` set (FLAVORS cl) \<times> UNIV \<and>
         (\<forall>fl \<in> fst ` set (FLAVORS cl).
            \<exists>u p. filter (\<lambda>w. flavor w = fl) (all_clipos_docker_latent_workers cl) = [u, p] \<and>
                  \<not> privileged u \<and> privileged p)"
proof (intro conjI ballI)
  show "distinct (map (\<lambda>w. (flavor w, privileged w)) (all_clipos_docker_latent_workers cl))"
    unfolding identities_eq using assms by (rule distinct_identities)
  show "set (map (\<lambda>w. (flavor w, privileged w)) (all_clipos_docker_latent_workers cl)) =
          fst ` set (FLAVORS cl) \<times> UNIV"
    unfolding identities_eq set_identities by simp
next
  fix fl assume "fl \<in> fst ` set (FLAVORS cl)"
  then have "fl \<in> set (map fst (FLAVORS cl))" by simp
  with assms have "filter (\<lambda>w. flavor w = fl) (all_clipos_docker_latent_workers cl) =
      workers_of_flavor cl fl"
    unfolding all_workers_eq by (rule filter_flavor_present)
  then show "\<exists>u p. filter (\<lambda>w. flavor w = fl) (all_clipos_docker_latent_workers cl) = [u, p] \<and>
                  \<not> privileged u \<and> privileged p"
    by (simp add: workers_of_flavor_def new_DockerLatentWorker_def)
qed

theorem worker_catalog_one_per_identity_witness:
  "distinct (map fst (FLAVORS example_clipos)) \<and>
   map (\<lambda>w. (flavor w, privileged w)) (all_clipos_docker_latent_workers example_clipos) =
     [(''debian-sid'', False), (''debian-sid'', True), (''fedora'', False), (''fedora'', True)] \<and>
   distinct (map (\<lambda>w. (flavor w, privileged w)) (all_clipos_docker_latent_workers example_clipos))"
proof -
  have d: "distinct (map fst (FLAVORS example_clipos))"
    by (simp add: example_clipos_def)
  show ?thesis
    using d worker_catalog_one_per_identity [OF d] by (simp add: all_workers_example)
qed

section \<open>The outcome of the script\<close>

text \<open>
  When the script ends with a configuration, the reference flavor is a key of
  \<open>FLAVORS\<close> and the configuration holds the workers, builders and schedulers built on
  the way. It does end with one when every flavor has a description and the reference
  flavor is a key of \<open>FLAVORS\<close>.
\<close>

lemma master_Inr:
  "master cl = Inr c \<Longrightarrow>
     reference_worker_flavor \<in> fst ` set (FLAVORS cl) \<and>
     workers c = c_workers cl \<and> builders c = c_builders cl \<and>
     schedulers c = c_schedulers cl (clipos_builder cl reference_worker_flavor)"
  by (simp add: master_def reference_clipos_builder_eq split: if_splits) auto

lemma master_succeeds:
  assumes "\<forall>(fl, props) \<in> set (FLAVORS cl). map_of props ''description'' \<noteq> None"
    and "reference_worker_flavor \<in> fst ` set (FLAVORS cl)"
  shows "\<exists>c. master cl = Inr c"
  using assms by (auto simp: master_def reference_clipos_builder_eq)

lemma master_example: "master example_clipos = Inr example_config"
  by (simp add: master_def reference_clipos_builder_eq example_clipos_def example_config_def
      reference_worker_flavor_def)

section \<open>The catalogue of builders\<close>

lemma builder_names_eq:
  "map name (c_builders cl) =
     map (\<lambda>fl. ''docker-worker-image env:'' @ fl) (map fst (FLAVORS cl))
     @ [''repo-sync'']
     @ map (\<lambda>fl. if fl = reference_worker_flavor then ''clipos'' else ''clipos env:'' @ fl)
         (map fst (FLAVORS cl))
     @ [''clipos ondemand'']"
  by (auto simp: c_builders_def docker_buildenv_image_builders_def
      docker_buildenv_image_builder_def repo_sync_builder_def
      clipos_on_all_flavors_builders_eq clipos_builder_def clipos_ondemand_builder_def)

lemma distinct_builder_names:
  assumes "distinct fls"
  shows "distinct (map (\<lambda>fl. ''docker-worker-image env:'' @ fl) fls
     @ [''repo-sync'']
     @ map (\<lambda>fl. if fl = reference_worker_flavor then ''clipos'' else ''clipos env:'' @ fl) fls
     @ [''clipos ondemand''])"
proof -
  define f where "f = (\<lambda>fl. ''docker-worker-image env:'' @ fl)"
  define g where
    "g = (\<lambda>fl. if fl = reference_worker_flavor then ''clipos'' else ''clipos env:'' @ fl)"
  have "inj f" by (rule injI) (simp add: f_def)
  then have df: "distinct (map f fls)"
    using assms by (simp add: distinct_map inj_on_def)
  have "inj g" by (rule injI) (simp add: g_def split: if_splits)
  then have dg: "distinct (map g fls)"
    using assms by (simp add: distinct_map inj_on_def)
  have f1: "''repo-sync'' \<notin> f ` A" and f2: "f ` A \<inter> g ` B = {}"
    and f3: "''clipos ondemand'' \<notin> f ` A"
    and g1: "''repo-sync'' \<notin> g ` A" and g3: "''clipos ondemand'' \<notin> g ` A" for A B
    by (auto simp: f_def g_def)
  have "distinct (map f fls @ [''repo-sync''] @ map g fls @ [''clipos ondemand''])"
    by (simp add: df dg f1 f2 f3 g1 g3 del: append.simps)
  then show ?thesis by (simp only: f_def g_def)
qed

text \<open>
  C10. The names of the registered builders are pairwise distinct. They are, in order:
  \<^verbatim>\<open>docker-worker-image env:<flavor>\<close> for every flavor, \<^verbatim>\<open>repo-sync\<close>, then for every
  flavor \<^verbatim>\<open>clipos\<close> when it is the reference flavor and \<^verbatim>\<open>clipos env:<flavor>\<close>
  otherwise, and \<^verbatim>\<open>clipos ondemand\<close>.
\<close>

theorem builder_names_pairwise_distinct:
  assumes "master cl = Inr c" and "distinct (map fst (FLAVORS cl))"
  shows "distinct (map name (builders c)) \<and>
         map name (builders c) =
           map (\<lambda>fl. ''docker-worker-image env:'' @ fl) (map fst (FLAVORS cl))
           @ [''repo-sync'']
           @ map (\<lambda>fl. if fl = reference_worker_flavor then ''clipos'' else ''clipos env:'' @ fl)
               (map fst (FLAVORS cl))
           @ [''clipos ondemand'']"
proof -
  from assms(1) have b: "builders c = c_builders cl"
    by (simp add: master_Inr)
  show ?thesis
    unfolding b builder_names_eq
    using distinct_builder_names [OF assms(2)] by (simp only: simp_thms)
qed

theorem builder_names_pairwise_distinct_witness:
  "master example_clipos = Inr example_config \<and>
   distinct (map fst (FLAVORS example_clipos)) \<and>
   map name (builders example_config) =
     [''docker-worker-image env:debian-sid'', ''docker-worker-image env:fedora'',
      ''repo-sync'', ''clipos'', ''clipos env:fedora'', ''clipos ondemand''] \<and>
   distinct (map name (builders example_config))"
proof -
  have d: "distinct (map fst (FLAVORS example_clipos))"
    by (simp add: example_clipos_def)
  have n: "map name (builders example_config) =
     [''docker-worker-image env:debian-sid'', ''docker-worker-image env:fedora'',
      ''repo-sync'', ''clipos'', ''clipos env:fedora'', ''clipos ondemand'']"
    by (simp add: example_config_def builder_names_eq)
      (simp add: example_clipos_def reference_worker_flavor_def)
  from builder_names_pairwise_distinct [OF master_example d]
  have "distinct (map name (builders example_config))" by (rule conjunct1)
  with d n master_example show ?thesis by (intro conjI)
qed


lemma docker_factory_builders:
  "b \<in> set (c_builders cl) \<Longrightarrow> factory b = BuildDockerImage fl \<Longrightarrow>
     b = docker_buildenv_image_builder fl \<and> fl \<in> fst ` set (FLAVORS cl)"
  by (force simp: c_builders_def docker_buildenv_image_builders_def
      docker_buildenv_image_builder_def repo_sync_builder_def
      clipos_on_all_flavors_builders_eq clipos_builder_def clipos_ondemand_builder_def)

lemma docker_builder_in_catalog:
  "fl \<in> fst ` set (FLAVORS cl) \<Longrightarrow> docker_buildenv_image_builder fl \<in> set (c_builders cl)"
  by (force simp: c_builders_def docker_buildenv_image_builders_def)

text \<open>
  C9. Every registered builder whose factory builds a Docker image is tied to the one
  worker name \<^verbatim>\<open>_docker-client-localworker\<close>; there is such a builder for every
  flavor; and that name is the name of \<open>docker_operations_worker\<close>, the only local
  worker among the registered workers.
\<close>

theorem docker_builders_on_docker_worker:
  assumes "master cl = Inr c"
  shows "(\<forall>b \<in> set (builders c). \<forall>fl. factory b = BuildDockerImage fl \<longrightarrow>
            workernames b = [''_docker-client-localworker'']) \<and>
         (\<forall>fl \<in> fst ` set (FLAVORS cl). \<exists>b \<in> set (builders c). factory b = BuildDockerImage fl) \<and>
         (\<forall>w \<in> set (workers c). (\<exists>n. w = LocalWorker n) \<longleftrightarrow> w = docker_operations_worker) \<and>
         docker_operations_worker \<in> set (workers c) \<and>
         name_of_worker docker_operations_worker = ''_docker-client-localworker''"
proof -
  from assms have b: "builders c = c_builders cl" and w: "workers c = c_workers cl"
    by (simp_all add: master_Inr)
  have 1: "workernames x = [''_docker-client-localworker'']"
    if "x \<in> set (c_builders cl)" "factory x = BuildDockerImage fl" for x fl
    using docker_factory_builders [OF that]
    by (simp add: docker_buildenv_image_builder_def docker_operations_worker_def)
  have 2: "\<exists>x \<in> set (c_builders cl). factory x = BuildDockerImage fl"
    if "fl \<in> fst ` set (FLAVORS cl)" for fl
    using docker_builder_in_catalog [OF that]
    by (rule bexI [rotated]) (simp add: docker_buildenv_image_builder_def)
  have 3: "(\<exists>n. x = LocalWorker n) \<longleftrightarrow> x = docker_operations_worker"
    if "x \<in> set (c_workers cl)" for x
    using that by (auto simp: c_workers_def docker_operations_worker_def)
  have 4: "docker_operations_worker \<in> set (c_workers cl)"
    by (simp add: c_workers_def)
  have 5: "name_of_worker docker_operations_worker = ''_docker-client-localworker''"
    by (simp add: docker_operations_worker_def)
  show ?thesis
    unfolding b w using 1 2 3 4 5 by blast
qed

theorem docker_builders_on_docker_worker_witness:
  "master example_clipos = Inr example_config \<and>
   docker_buildenv_image_builder ''fedora'' \<in> set (builders example_config) \<and>
   factory (docker_buildenv_image_builder ''fedora'') = BuildDockerImage ''fedora'' \<and>
   workernames (docker_buildenv_image_builder ''fedora'') = [''_docker-client-localworker'']"
proof -
  have m: "docker_buildenv_image_builder ''fedora'' \<in> set (builders example_config)"
    by (simp add: example_config_def c_builders_def docker_buildenv_image_builders_def
        example_clipos_def)
  have f: "factory (docker_buildenv_image_builder ''fedora'') = BuildDockerImage ''fedora''"
    by (simp add: docker_buildenv_image_builder_def)
  from docker_builders_on_docker_worker [OF master_example] m f
  have "workernames (docker_buildenv_image_builder ''fedora'') = [''_docker-client-localworker'']"
    by blast
  with master_example m f show ?thesis by (intro conjI)
qed


section \<open>The schedulers\<close>

subsection \<open>The forced schedulers and what they offer\<close>

lemma name_repo_sync_builder: "name (repo_sync_builder cl) = ''repo-sync''"
  by (simp add: repo_sync_builder_def)

lemma name_reference_builder: "name (clipos_builder cl reference_worker_flavor) = ''clipos''"
  by (simp add: clipos_builder_def)

lemma name_ondemand_builder: "name (clipos_ondemand_builder cl) = ''clipos ondemand''"
  by (simp add: clipos_ondemand_builder_def)

lemma custom_build_defaults:
  "property_defaults (clipos_custom_build_force_sched cl ref) =
     [(''buildername_providing_repo_quicksync_artifacts'', Some (PStr ''repo-sync'')),
      (''use_local_manifest'', Some (PBool False)),
      (''local_manifest_xml'', None),
      (''cleanup_workspace'', Some (PBool True)),
      (''force_repo_quicksync_artifacts_download'', Some (PBool False)),
      (''produce_sdks_artifacts'', Some (PBool False)),
      (''reuse_sdks_artifacts'', Some (PBool True)),
      (''buildername_providing_sdks_artifacts'', Some (PStr (name ref))),
      (''produce_cache_artifacts'', Some (PBool False)),
      (''reuse_cache_artifacts'', Some (PBool True)),
      (''buildername_providing_cache_artifacts'', Some (PStr (name ref))),
      (''produce_build_artifacts'', Some (PBool False))]"
  by (simp add: clipos_custom_build_force_sched_def name_repo_sync_builder)

lemma repo_sync_force_defaults:
  "property_defaults (repo_sync_force_sched cl) = [(''cleanup_workspace'', Some (PBool True))]"
  by (simp add: repo_sync_force_sched_def)

lemma docker_force_defaults:
  "property_defaults (docker_buildenv_image_rebuild_force_sched cl) = []"
  by (simp add: docker_buildenv_image_rebuild_force_sched_def)

lemma forced_schedulers:
  assumes "s \<in> set (c_schedulers cl ref)" and "is_forced s"
  shows "s = repo_sync_force_sched cl \<or> s = docker_buildenv_image_rebuild_force_sched cl \<or>
         s = clipos_custom_build_force_sched cl ref"
  using assms
  by (auto simp: c_schedulers_def is_forced_def clipos_incremental_build_intraday_sched_def
      repo_sync_nightly_sched_def clipos_build_nightly_sched_def clipos_build_weekly_sched_def
      docker_buildenv_image_rebuild_weekly_sched_def)

lemma custom_in_example: "clipos_custom_build_force_sched example_clipos
      (clipos_builder example_clipos reference_worker_flavor) \<in> set (schedulers example_config)"
  by (simp add: example_config_def c_schedulers_def)

lemma custom_is_forced: "is_forced (clipos_custom_build_force_sched cl ref)"
  by (simp add: is_forced_def clipos_custom_build_force_sched_def)

text \<open>
  C3. On every forced scheduler of the configuration, every offered parameter whose name
  starts with \<^verbatim>\<open>reuse_\<close> has the default \<^verbatim>\<open>True\<close>, and every one whose name starts
  with \<^verbatim>\<open>produce_\<close> has the default \<^verbatim>\<open>False\<close>.
\<close>

theorem forced_reuse_true_produce_false:
  assumes "master cl = Inr c" and "s \<in> set (schedulers c)" and "is_forced s"
    and "(k, d) \<in> set (property_defaults s)"
  shows "(prefix ''reuse_'' k \<longrightarrow> d = Some (PBool True)) \<and>
         (prefix ''produce_'' k \<longrightarrow> d = Some (PBool False))"
proof -
  from assms(1,2) have "s \<in> set (c_schedulers cl (clipos_builder cl reference_worker_flavor))"
    by (simp add: master_Inr)
  from forced_schedulers [OF this assms(3)] assms(4) show ?thesis
    by (auto simp: custom_build_defaults repo_sync_force_defaults docker_force_defaults)
qed


theorem forced_reuse_true_produce_false_witness:
  "master example_clipos = Inr example_config \<and>
   clipos_custom_build_force_sched example_clipos
      (clipos_builder example_clipos reference_worker_flavor) \<in> set (schedulers example_config) \<and>
   is_forced (clipos_custom_build_force_sched example_clipos
      (clipos_builder example_clipos reference_worker_flavor)) \<and>
   (\<exists>d. (''reuse_sdks_artifacts'', d) \<in> set (property_defaults
      (clipos_custom_build_force_sched example_clipos
         (clipos_builder example_clipos reference_worker_flavor))) \<and>
      prefix ''reuse_'' ''reuse_sdks_artifacts'' \<and> d = Some (PBool True)) \<and>
   (\<exists>d. (''produce_build_artifacts'', d) \<in> set (property_defaults
      (clipos_custom_build_force_sched example_clipos
         (clipos_builder example_clipos reference_worker_flavor))) \<and>
      prefix ''produce_'' ''produce_build_artifacts'' \<and> d = Some (PBool False))"
proof -
  let ?s = "clipos_custom_build_force_sched example_clipos
      (clipos_builder example_clipos reference_worker_flavor)"
  obtain d where d: "(''reuse_sdks_artifacts'', d) \<in> set (property_defaults ?s)"
    by (auto simp: custom_build_defaults)
  obtain e where e: "(''produce_build_artifacts'', e) \<in> set (property_defaults ?s)"
    by (auto simp: custom_build_defaults)
  have "d = Some (PBool True)"
    using forced_reuse_true_produce_false [OF master_example custom_in_example custom_is_forced d]
    by simp
  moreover have "e = Some (PBool False)"
    using forced_reuse_true_produce_false [OF master_example custom_in_example custom_is_forced e]
    by simp
  ultimately show ?thesis
    using master_example custom_in_example custom_is_forced d e by auto
qed


subsection \<open>The periodic schedulers and the properties they set\<close>

lemma intraday_defaults:
  "property_defaults (clipos_incremental_build_intraday_sched cl ref) =
       [(''cleanup_workspace'', Some (PBool True)),
        (''force_repo_quicksync_artifacts_download'', Some (PBool False)),
        (''buildername_providing_repo_quicksync_artifacts'', Some (PStr ''repo-sync'')),
        (''produce_sdks_artifacts'', Some (PBool False)),
        (''reuse_sdks_artifacts'', Some (PBool True)),
        (''buildername_providing_sdks_artifacts'', Some (PStr (name ref))),
        (''produce_cache_artifacts'', Some (PBool False)),
        (''reuse_cache_artifacts'', Some (PBool True)),
        (''buildername_providing_cache_artifacts'', Some (PStr (name ref))),
        (''produce_build_artifacts'', Some (PBool True))]"
  by (simp add: clipos_incremental_build_intraday_sched_def name_repo_sync_builder)

lemma nightly_defaults:
  "property_defaults (clipos_build_nightly_sched cl ref) =
       [(''cleanup_workspace'', Some (PBool True)),
        (''force_repo_quicksync_artifacts_download'', Some (PBool False)),
        (''buildername_providing_repo_quicksync_artifacts'', Some (PStr ''repo-sync'')),
        (''produce_sdks_artifacts'', Some (PBool True)),
        (''reuse_sdks_artifacts'', Some (PBool False)),
        (''produce_cache_artifacts'', Some (PBool True)),
        (''reuse_cache_artifacts'', Some (PBool False)),
        (''produce_build_artifacts'', Some (PBool True))]"
  by (simp add: clipos_build_nightly_sched_def name_repo_sync_builder)

lemma weekly_defaults:
  "property_defaults (clipos_build_weekly_sched cl) =
       [(''cleanup_workspace'', Some (PBool True)),
        (''force_repo_quicksync_artifacts_download'', Some (PBool True)),
        (''buildername_providing_repo_quicksync_artifacts'', Some (PStr ''repo-sync'')),
        (''produce_sdks_artifacts'', Some (PBool True)),
        (''reuse_sdks_artifacts'', Some (PBool False)),
        (''produce_cache_artifacts'', Some (PBool True)),
        (''reuse_cache_artifacts'', Some (PBool False)),
        (''produce_build_artifacts'', Some (PBool True))]"
  by (simp add: clipos_build_weekly_sched_def name_repo_sync_builder)

lemma repo_sync_nightly_defaults:
  "property_defaults (repo_sync_nightly_sched cl) = [(''cleanup_workspace'', Some (PBool True))]"
  by (simp add: repo_sync_nightly_sched_def)

lemma docker_weekly_defaults:
  "property_defaults (docker_buildenv_image_rebuild_weekly_sched cl) = []"
  by (simp add: docker_buildenv_image_rebuild_weekly_sched_def)

lemmas scheduler_defaults =
  intraday_defaults nightly_defaults weekly_defaults repo_sync_nightly_defaults
  docker_weekly_defaults custom_build_defaults repo_sync_force_defaults docker_force_defaults

lemma is_forced_simps:
  "\<not> is_forced (clipos_incremental_build_intraday_sched cl ref)"
  "\<not> is_forced (repo_sync_nightly_sched cl)"
  "\<not> is_forced (clipos_build_nightly_sched cl ref)"
  "\<not> is_forced (clipos_build_weekly_sched cl)"
  "\<not> is_forced (docker_buildenv_image_rebuild_weekly_sched cl)"
  "is_forced (repo_sync_force_sched cl)"
  "is_forced (docker_buildenv_image_rebuild_force_sched cl)"
  "is_forced (clipos_custom_build_force_sched cl ref)"
  by (simp_all add: is_forced_def clipos_incremental_build_intraday_sched_def
      repo_sync_nightly_sched_def clipos_build_nightly_sched_def clipos_build_weekly_sched_def
      docker_buildenv_image_rebuild_weekly_sched_def repo_sync_force_sched_def
      docker_buildenv_image_rebuild_force_sched_def clipos_custom_build_force_sched_def)

lemma periodic_schedulers:
  assumes "s \<in> set (c_schedulers cl ref)" and "\<not> is_forced s"
  shows "s = clipos_incremental_build_intraday_sched cl ref \<or> s = repo_sync_nightly_sched cl \<or>
         s = clipos_build_nightly_sched cl ref \<or> s = clipos_build_weekly_sched cl \<or>
         s = docker_buildenv_image_rebuild_weekly_sched cl"
  using assms by (auto simp: c_schedulers_def is_forced_simps)

lemma intraday_in_example:
  "clipos_incremental_build_intraday_sched example_clipos
     (clipos_builder example_clipos reference_worker_flavor) \<in> set (schedulers example_config)"
  by (simp add: example_config_def c_schedulers_def)



text \<open>
  C5. No periodic scheduler of the configuration sets both
  \<^verbatim>\<open>produce_<kind>_artifacts\<close> and \<^verbatim>\<open>reuse_<kind>_artifacts\<close> to \<^verbatim>\<open>True\<close>, whatever
  the kind.
\<close>

theorem periodic_never_produce_and_reuse:
  assumes "master cl = Inr c" and "s \<in> set (schedulers c)" and "\<not> is_forced s"
  shows "\<not> ((''produce_'' @ kind @ ''_artifacts'', Some (PBool True)) \<in> set (property_defaults s) \<and>
            (''reuse_'' @ kind @ ''_artifacts'', Some (PBool True)) \<in> set (property_defaults s))"
proof -
  from assms(1,2) have "s \<in> set (c_schedulers cl (clipos_builder cl reference_worker_flavor))"
    by (simp add: master_Inr)
  from periodic_schedulers [OF this assms(3)] show ?thesis
    by (auto simp: scheduler_defaults)
qed


theorem periodic_never_produce_and_reuse_witness:
  "master example_clipos = Inr example_config \<and>
   clipos_incremental_build_intraday_sched example_clipos
     (clipos_builder example_clipos reference_worker_flavor) \<in> set (schedulers example_config) \<and>
   \<not> is_forced (clipos_incremental_build_intraday_sched example_clipos
     (clipos_builder example_clipos reference_worker_flavor)) \<and>
   (''reuse_'' @ ''sdks'' @ ''_artifacts'', Some (PBool True)) \<in> set (property_defaults
     (clipos_incremental_build_intraday_sched example_clipos
       (clipos_builder example_clipos reference_worker_flavor))) \<and>
   (''produce_'' @ ''sdks'' @ ''_artifacts'', Some (PBool True)) \<notin> set (property_defaults
     (clipos_incremental_build_intraday_sched example_clipos
       (clipos_builder example_clipos reference_worker_flavor)))"
proof -
  let ?s = "clipos_incremental_build_intraday_sched example_clipos
     (clipos_builder example_clipos reference_worker_flavor)"
  have r: "(''reuse_'' @ ''sdks'' @ ''_artifacts'', Some (PBool True)) \<in> set (property_defaults ?s)"
    by (simp add: intraday_defaults)
  from periodic_never_produce_and_reuse
         [OF master_example intraday_in_example is_forced_simps(1), of "''sdks''"] r
  have "(''produce_'' @ ''sdks'' @ ''_artifacts'', Some (PBool True))
          \<notin> set (property_defaults ?s)"
    by blast
  with master_example intraday_in_example is_forced_simps(1) r show ?thesis
    by (intro conjI)
qed

text \<open>
  C6. When the script ends with a configuration, \<^verbatim>\<open>reference_clipos_builder\<close> is bound
  to the CLIP OS builder of the reference flavor, and on every forced scheduler: each
  kind with a \<^verbatim>\<open>reuse_<kind>_artifacts\<close> parameter (the SDKs and the cache) has a choice
  parameter \<^verbatim>\<open>buildername_providing_<kind>_artifacts\<close> whose default is the name of
  that builder, one of its choices; and the only other providing builder offered is the
  fixed parameter for the source tree quick-sync artifacts, whose value is the name of
  the repo-sync builder.
\<close>

theorem source_target_defaults:
  assumes "master cl = Inr c"
  shows "\<exists>ref. reference_clipos_builder cl = Some ref \<and>
           ref \<in> set (clipos_on_all_flavors_builders cl) \<and>
           tags ref = [''clipos'', ''docker-env:'' @ reference_worker_flavor] \<and>
           clipos_custom_build_force_sched cl ref \<in> set (schedulers c) \<and>
           FixedParameter ''buildername_providing_repo_quicksync_artifacts''
               (PStr (name (repo_sync_builder cl)))
             \<in> set (offered_parameters (clipos_custom_build_force_sched cl ref)) \<and>
           (\<forall>s \<in> set (schedulers c). is_forced s \<longrightarrow>
              (\<forall>kind. ''reuse_'' @ kind @ ''_artifacts'' \<in> set (property_names s) \<longrightarrow>
                 (\<exists>choices.
                    ChoiceStringParameter (''buildername_providing_'' @ kind @ ''_artifacts'')
                        choices (name ref) \<in> set (offered_parameters s) \<and>
                    name ref \<in> set choices)) \<and>
              (\<forall>p \<in> set (offered_parameters s).
                 prefix ''buildername_providing_'' (parameter_name p) \<longrightarrow>
                   p = FixedParameter ''buildername_providing_repo_quicksync_artifacts''
                         (PStr (name (repo_sync_builder cl))) \<or>
                   parameter_default p = Some (PStr (name ref))))"
proof -
  let ?ref = "clipos_builder cl reference_worker_flavor"
  from assms(1) have fl: "reference_worker_flavor \<in> fst ` set (FLAVORS cl)"
    and sc: "schedulers c = c_schedulers cl ?ref"
    by (simp_all add: master_Inr)
  from fl have 1: "reference_clipos_builder cl = Some ?ref"
    by (simp add: reference_clipos_builder_eq)
  have 2: "?ref \<in> set (clipos_on_all_flavors_builders cl)"
    unfolding clipos_on_all_flavors_builders_eq set_map by (rule imageI) (rule fl)
  then have in_choices: "name ?ref \<in> set (map name (clipos_on_all_flavors_builders cl))"
    by simp
  have 3: "tags ?ref = [''clipos'', ''docker-env:'' @ reference_worker_flavor]"
    by (simp add: clipos_builder_def)
  have 4: "\<exists>choices. ChoiceStringParameter (''buildername_providing_'' @ kind @ ''_artifacts'')
                           choices (name ?ref) \<in> set (offered_parameters s) \<and>
                         name ?ref \<in> set choices"
    if "s \<in> set (c_schedulers cl ?ref)" "is_forced s"
      "''reuse_'' @ kind @ ''_artifacts'' \<in> set (property_names s)" for kind s
    using forced_schedulers [OF that(1,2)] that(3) in_choices
    by (auto simp: property_names_def scheduler_defaults repo_sync_force_sched_def
        docker_buildenv_image_rebuild_force_sched_def clipos_custom_build_force_sched_def
        simp del: set_map)
  have 5: "p = FixedParameter ''buildername_providing_repo_quicksync_artifacts''
                      (PStr (name (repo_sync_builder cl))) \<or>
                parameter_default p = Some (PStr (name ?ref))"
    if "s \<in> set (c_schedulers cl ?ref)" "is_forced s"
      "p \<in> set (offered_parameters s)" "prefix ''buildername_providing_'' (parameter_name p)"
    for p s
    using forced_schedulers [OF that(1,2)] that(3,4)
    by (auto simp: repo_sync_force_sched_def
        docker_buildenv_image_rebuild_force_sched_def clipos_custom_build_force_sched_def)
  have 6: "clipos_custom_build_force_sched cl ?ref \<in> set (c_schedulers cl ?ref)"
    by (simp add: c_schedulers_def)
  have 7: "FixedParameter ''buildername_providing_repo_quicksync_artifacts''
               (PStr (name (repo_sync_builder cl)))
             \<in> set (offered_parameters (clipos_custom_build_force_sched cl ?ref))"
    by (simp add: clipos_custom_build_force_sched_def)
  show ?thesis
    unfolding sc using 1 2 3 4 5 6 7 by blast
qed

theorem source_target_defaults_witness:
  "master example_clipos = Inr example_config \<and>
   (\<exists>ref choices.
      reference_clipos_builder example_clipos = Some ref \<and>
      clipos_custom_build_force_sched example_clipos ref \<in> set (schedulers example_config) \<and>
      is_forced (clipos_custom_build_force_sched example_clipos ref) \<and>
      ''reuse_'' @ ''sdks'' @ ''_artifacts''
        \<in> set (property_names (clipos_custom_build_force_sched example_clipos ref)) \<and>
      ChoiceStringParameter (''buildername_providing_'' @ ''sdks'' @ ''_artifacts'')
          choices (name ref)
        \<in> set (offered_parameters (clipos_custom_build_force_sched example_clipos ref)) \<and>
      name ref \<in> set choices \<and>
      prefix ''buildername_providing_''
        (parameter_name (ChoiceStringParameter
           (''buildername_providing_'' @ ''sdks'' @ ''_artifacts'') choices (name ref))))"
proof -
  from source_target_defaults [OF master_example]
  obtain ref where ref: "reference_clipos_builder example_clipos = Some ref"
    and sched: "clipos_custom_build_force_sched example_clipos ref
                  \<in> set (schedulers example_config)"
    and all: "\<And>s kind. s \<in> set (schedulers example_config) \<Longrightarrow> is_forced s \<Longrightarrow>
       ''reuse_'' @ kind @ ''_artifacts'' \<in> set (property_names s) \<Longrightarrow>
       \<exists>choices. ChoiceStringParameter (''buildername_providing_'' @ kind @ ''_artifacts'')
                   choices (name ref) \<in> set (offered_parameters s) \<and>
                 name ref \<in> set choices"
    by blast
  have forced: "is_forced (clipos_custom_build_force_sched example_clipos ref)"
    by (rule is_forced_simps)
  have reuse: "''reuse_'' @ ''sdks'' @ ''_artifacts''
        \<in> set (property_names (clipos_custom_build_force_sched example_clipos ref))"
    by (simp add: property_names_def custom_build_defaults)
  from all [OF sched forced reuse] obtain choices where
    "ChoiceStringParameter (''buildername_providing_'' @ ''sdks'' @ ''_artifacts'')
          choices (name ref)
        \<in> set (offered_parameters (clipos_custom_build_force_sched example_clipos ref))"
    and "name ref \<in> set choices"
    by blast
  moreover have "prefix ''buildername_providing_''
        (parameter_name (ChoiceStringParameter
           (''buildername_providing_'' @ ''sdks'' @ ''_artifacts'') choices (name ref)))"
    by simp
  ultimately show ?thesis
    using master_example ref sched forced reuse by blast
qed


subsection \<open>The keys the forced schedulers accept\<close>







subsection \<open>Which scheduler triggers which builder\<close>

lemma builder_names_of_schedulers:
  "builderNames (clipos_incremental_build_intraday_sched cl ref) = [name ref]"
  "builderNames (repo_sync_nightly_sched cl) = [''repo-sync'']"
  "builderNames (clipos_build_nightly_sched cl ref) = [name ref]"
  "builderNames (clipos_build_weekly_sched cl) = map name (clipos_on_all_flavors_builders cl)"
  "builderNames (docker_buildenv_image_rebuild_weekly_sched cl) =
     map name (docker_buildenv_image_builders cl)"
  "builderNames (repo_sync_force_sched cl) = [''repo-sync'']"
  "builderNames (docker_buildenv_image_rebuild_force_sched cl) =
     map name (docker_buildenv_image_builders cl)"
  "builderNames (clipos_custom_build_force_sched cl ref) = [''clipos ondemand'']"
  by (simp_all add: clipos_incremental_build_intraday_sched_def
      repo_sync_nightly_sched_def clipos_build_nightly_sched_def clipos_build_weekly_sched_def
      docker_buildenv_image_rebuild_weekly_sched_def repo_sync_force_sched_def
      docker_buildenv_image_rebuild_force_sched_def clipos_custom_build_force_sched_def
      name_repo_sync_builder name_ondemand_builder)

lemma name_other_flavor_builder:
  "fl \<noteq> reference_worker_flavor \<Longrightarrow> name (clipos_builder cl fl) = ''clipos env:'' @ fl"
  by (simp add: clipos_builder_def)

lemma other_flavor_not_docker_name:
  "''clipos env:'' @ fl \<notin> set (map name (docker_buildenv_image_builders cl))"
  by (auto simp: docker_buildenv_image_builders_def docker_buildenv_image_builder_def)

lemma other_flavor_only_weekly:
  assumes "fl \<noteq> reference_worker_flavor"
    and "s \<in> set (c_schedulers cl (clipos_builder cl reference_worker_flavor))"
    and "name (clipos_builder cl fl) \<in> set (builderNames s)"
  shows "s = clipos_build_weekly_sched cl"
proof -
  have n: "name (clipos_builder cl fl) = ''clipos env:'' @ fl"
    using assms(1) by (rule name_other_flavor_builder)
  from assms(2) consider
      "s = clipos_incremental_build_intraday_sched cl (clipos_builder cl reference_worker_flavor)"
    | "s = repo_sync_nightly_sched cl"
    | "s = clipos_build_nightly_sched cl (clipos_builder cl reference_worker_flavor)"
    | "s = clipos_build_weekly_sched cl"
    | "s = docker_buildenv_image_rebuild_weekly_sched cl"
    | "s = repo_sync_force_sched cl"
    | "s = docker_buildenv_image_rebuild_force_sched cl"
    | "s = clipos_custom_build_force_sched cl (clipos_builder cl reference_worker_flavor)"
    by (auto simp: c_schedulers_def)
  then show ?thesis
  proof cases
    case 4
    then show ?thesis .
  next
    case 5
    with assms(3) other_flavor_not_docker_name [of fl cl] show ?thesis
      by (simp only: n builder_names_of_schedulers)
  next
    case 7
    with assms(3) other_flavor_not_docker_name [of fl cl] show ?thesis
      by (simp only: n builder_names_of_schedulers)
  qed (use assms(3) in \<open>simp_all add: n builder_names_of_schedulers name_reference_builder\<close>)
qed

lemma weekly_names_every_flavor:
  assumes "fl \<in> fst ` set (FLAVORS cl)"
  shows "name (clipos_builder cl fl) \<in> set (builderNames (clipos_build_weekly_sched cl))"
proof -
  from assms have "name (clipos_builder cl fl) \<in> name ` clipos_builder cl ` fst ` set (FLAVORS cl)"
    by (intro imageI)
  then show ?thesis
    by (simp only: builder_names_of_schedulers clipos_on_all_flavors_builders_eq set_map)
qed

lemma builder_cases:
  assumes "b \<in> set (c_builders cl)"
  obtains fl where "fl \<in> fst ` set (FLAVORS cl)" "b = docker_buildenv_image_builder fl"
    | "b = repo_sync_builder cl"
    | fl where "fl \<in> fst ` set (FLAVORS cl)" "b = clipos_builder cl fl"
    | "b = clipos_ondemand_builder cl"
  using assms
  by (force simp: c_builders_def docker_buildenv_image_builders_def
      clipos_on_all_flavors_builders_eq)

lemma name_docker_builder:
  "name (docker_buildenv_image_builder fl) = ''docker-worker-image env:'' @ fl"
  by (simp add: docker_buildenv_image_builder_def)

lemma name_clipos_builder:
  "name (clipos_builder cl fl) =
     (if fl = reference_worker_flavor then ''clipos'' else ''clipos env:'' @ fl)"
  by (simp add: clipos_builder_def)

lemma named_clipos_is_reference:
  assumes "b \<in> set (c_builders cl)" and "name b = ''clipos''"
  shows "b = clipos_builder cl reference_worker_flavor"
  using assms(1)
proof (cases rule: builder_cases)
  case (1 fl)
  with assms(2) show ?thesis by (simp add: name_docker_builder)
next
  case 2
  with assms(2) show ?thesis by (simp add: name_repo_sync_builder)
next
  case (3 fl)
  with assms(2) show ?thesis by (simp add: name_clipos_builder split: if_splits)
next
  case 4
  with assms(2) show ?thesis by (simp add: name_ondemand_builder)
qed

lemma one_reference_flavor:
  "distinct fls \<Longrightarrow> r \<in> set fls \<Longrightarrow> filter (\<lambda>fl. fl = r) fls = [r]"
  by (induction fls) (auto simp: filter_empty_conv)

text \<open>
  C7. Exactly one key of \<open>FLAVORS\<close> is the reference flavor. The intra-day and the
  nightly CLIP OS build schedulers name one builder only, the one
  \<^verbatim>\<open>reference_clipos_builder\<close> is bound to, which is the CLIP OS builder of the
  reference flavor (and the only registered builder of that name); more generally, a
  periodic scheduler that does not run on Saturdays names no builder but that one and the
  repo-sync builder. The CLIP OS builder of any other flavor is registered, and it is
  named by one scheduler only, periodic or forced: the weekly CLIP OS build scheduler,
  which runs on Saturdays.
\<close>

theorem reference_flavor_routine_builds:
  assumes "master cl = Inr c" and "distinct (map fst (FLAVORS cl))"
  shows "filter (\<lambda>fl. fl = reference_worker_flavor) (map fst (FLAVORS cl)) =
           [reference_worker_flavor] \<and>
         (\<exists>ref. reference_clipos_builder cl = Some ref \<and>
            ref = clipos_builder cl reference_worker_flavor \<and>
            clipos_incremental_build_intraday_sched cl ref \<in> set (schedulers c) \<and>
            builderNames (clipos_incremental_build_intraday_sched cl ref) = [name ref] \<and>
            clipos_build_nightly_sched cl ref \<in> set (schedulers c) \<and>
            builderNames (clipos_build_nightly_sched cl ref) = [name ref] \<and>
            (\<forall>b \<in> set (builders c). name b = name ref \<longrightarrow> b = ref) \<and>
            (\<forall>s \<in> set (schedulers c). \<not> is_forced s \<longrightarrow> dayOfWeek s \<noteq> ''6'' \<longrightarrow>
               set (builderNames s) \<subseteq> {name ref, name (repo_sync_builder cl)})) \<and>
         clipos_build_weekly_sched cl \<in> set (schedulers c) \<and>
         dayOfWeek (clipos_build_weekly_sched cl) = ''6'' \<and>
         (\<forall>fl \<in> fst ` set (FLAVORS cl). fl \<noteq> reference_worker_flavor \<longrightarrow>
            clipos_builder cl fl \<in> set (builders c) \<and>
            (\<forall>s \<in> set (schedulers c).
               name (clipos_builder cl fl) \<in> set (builderNames s) \<longleftrightarrow>
                 s = clipos_build_weekly_sched cl))"
proof -
  let ?ref = "clipos_builder cl reference_worker_flavor"
  from assms(1) have fl: "reference_worker_flavor \<in> fst ` set (FLAVORS cl)"
    and sc: "schedulers c = c_schedulers cl ?ref" and bc: "builders c = c_builders cl"
    by (simp_all add: master_Inr)
  from fl have "reference_worker_flavor \<in> set (map fst (FLAVORS cl))" by simp
  with assms(2) have 1: "filter (\<lambda>fl. fl = reference_worker_flavor) (map fst (FLAVORS cl)) =
           [reference_worker_flavor]"
    by (rule one_reference_flavor)
  from fl have 2: "reference_clipos_builder cl = Some ?ref"
    by (simp add: reference_clipos_builder_eq)
  have 3: "clipos_incremental_build_intraday_sched cl ?ref \<in> set (c_schedulers cl ?ref)"
    "clipos_build_nightly_sched cl ?ref \<in> set (c_schedulers cl ?ref)"
    "clipos_build_weekly_sched cl \<in> set (c_schedulers cl ?ref)"
    by (simp_all add: c_schedulers_def)
  have 4: "b = ?ref" if "b \<in> set (c_builders cl)" "name b = name ?ref" for b
    using that by (simp add: name_reference_builder named_clipos_is_reference)
  have 5: "dayOfWeek (clipos_build_weekly_sched cl) = ''6''"
    by (simp add: clipos_build_weekly_sched_def)
  have 6: "clipos_builder cl f \<in> set (c_builders cl)" if "f \<in> fst ` set (FLAVORS cl)" for f
  proof -
    from that have "clipos_builder cl f \<in> clipos_builder cl ` fst ` set (FLAVORS cl)"
      by (rule imageI)
    then have "clipos_builder cl f \<in> set (clipos_on_all_flavors_builders cl)"
      by (simp only: clipos_on_all_flavors_builders_eq set_map)
    then show ?thesis
      by (simp add: c_builders_def)
  qed
  have 7: "name (clipos_builder cl f) \<in> set (builderNames s) \<longleftrightarrow> s = clipos_build_weekly_sched cl"
    if "f \<in> fst ` set (FLAVORS cl)" "f \<noteq> reference_worker_flavor" "s \<in> set (c_schedulers cl ?ref)"
    for f s
    using other_flavor_only_weekly [OF that(2,3)] weekly_names_every_flavor [OF that(1)]
    by blast
  have 8: "set (builderNames s) \<subseteq> {name ?ref, name (repo_sync_builder cl)}"
    if "s \<in> set (c_schedulers cl ?ref)" "\<not> is_forced s" "dayOfWeek s \<noteq> ''6''" for s
    using periodic_schedulers [OF that(1,2)] that(3)
    by (auto simp: builder_names_of_schedulers name_repo_sync_builder
        clipos_build_weekly_sched_def docker_buildenv_image_rebuild_weekly_sched_def)
  have routine: "\<exists>ref. reference_clipos_builder cl = Some ref \<and>
            ref = clipos_builder cl reference_worker_flavor \<and>
            clipos_incremental_build_intraday_sched cl ref \<in> set (schedulers c) \<and>
            builderNames (clipos_incremental_build_intraday_sched cl ref) = [name ref] \<and>
            clipos_build_nightly_sched cl ref \<in> set (schedulers c) \<and>
            builderNames (clipos_build_nightly_sched cl ref) = [name ref] \<and>
            (\<forall>b \<in> set (builders c). name b = name ref \<longrightarrow> b = ref) \<and>
            (\<forall>s \<in> set (schedulers c). \<not> is_forced s \<longrightarrow> dayOfWeek s \<noteq> ''6'' \<longrightarrow>
               set (builderNames s) \<subseteq> {name ref, name (repo_sync_builder cl)})"
    unfolding sc bc
    using 2 3(1,2) 4 builder_names_of_schedulers(1,3) 8
    by (intro exI [of _ ?ref] conjI ballI impI) blast+
  have others: "\<forall>fl \<in> fst ` set (FLAVORS cl). fl \<noteq> reference_worker_flavor \<longrightarrow>
            clipos_builder cl fl \<in> set (builders c) \<and>
            (\<forall>s \<in> set (schedulers c).
               name (clipos_builder cl fl) \<in> set (builderNames s) \<longleftrightarrow>
                 s = clipos_build_weekly_sched cl)"
    unfolding sc bc using 6 7 by (intro ballI impI conjI) blast+
  from 3(3) have weekly: "clipos_build_weekly_sched cl \<in> set (schedulers c)"
    unfolding sc .
  from 1 routine weekly 5 others show ?thesis
    by (intro conjI)
qed

theorem reference_flavor_routine_builds_witness:
  "master example_clipos = Inr example_config \<and>
   distinct (map fst (FLAVORS example_clipos)) \<and>
   ''fedora'' \<in> fst ` set (FLAVORS example_clipos) \<and>
   ''fedora'' \<noteq> reference_worker_flavor \<and>
   clipos_builder example_clipos ''fedora'' \<in> set (builders example_config) \<and>
   clipos_build_weekly_sched example_clipos \<in> set (schedulers example_config) \<and>
   name (clipos_builder example_clipos ''fedora'')
     \<in> set (builderNames (clipos_build_weekly_sched example_clipos)) \<and>
   clipos_build_nightly_sched example_clipos
       (clipos_builder example_clipos reference_worker_flavor) \<in> set (schedulers example_config) \<and>
   name (clipos_builder example_clipos ''fedora'')
     \<notin> set (builderNames (clipos_build_nightly_sched example_clipos
         (clipos_builder example_clipos reference_worker_flavor)))"
proof -
  let ?nightly = "clipos_build_nightly_sched example_clipos
       (clipos_builder example_clipos reference_worker_flavor)"
  have d: "distinct (map fst (FLAVORS example_clipos))"
    and f: "''fedora'' \<in> fst ` set (FLAVORS example_clipos)"
    and n: "''fedora'' \<noteq> reference_worker_flavor"
    by (simp_all add: example_clipos_def reference_worker_flavor_def)
  note t = reference_flavor_routine_builds [OF master_example d]
  from t f n have b: "clipos_builder example_clipos ''fedora'' \<in> set (builders example_config)"
    and only: "\<And>s. s \<in> set (schedulers example_config) \<Longrightarrow>
       name (clipos_builder example_clipos ''fedora'') \<in> set (builderNames s) \<longleftrightarrow>
         s = clipos_build_weekly_sched example_clipos"
    by blast+
  from t have w: "clipos_build_weekly_sched example_clipos \<in> set (schedulers example_config)"
    by blast
  have ni: "?nightly \<in> set (schedulers example_config)"
    by (simp add: example_config_def c_schedulers_def)
  have "?nightly \<noteq> clipos_build_weekly_sched example_clipos"
    by (simp add: clipos_build_nightly_sched_def clipos_build_weekly_sched_def)
  with only [OF ni] have no: "name (clipos_builder example_clipos ''fedora'')
     \<notin> set (builderNames ?nightly)"
    by simp
  from only [OF w] have yes: "name (clipos_builder example_clipos ''fedora'')
     \<in> set (builderNames (clipos_build_weekly_sched example_clipos))"
    by simp
  from master_example d f n b w yes ni no show ?thesis
    by (intro conjI)
qed


section \<open>Builders and the privilege of their workers\<close>

text \<open>
  A builder is tied to workers by name (\<^verbatim>\<open>workernames\<close>). Buildbot requires worker
  names to be unique; with distinct names, a worker of the catalogue is tied to a builder
  exactly when it passes the filter the builder was made with.
\<close>

lemma tied_iff:
  assumes "distinct (map worker_name ws)" and "w \<in> set ws"
  shows "worker_name w \<in> set (map worker_name (filter P ws)) \<longleftrightarrow> P w"
proof
  assume "worker_name w \<in> set (map worker_name (filter P ws))"
  then obtain v where v: "v \<in> set ws" "P v" "worker_name v = worker_name w"
    by auto
  from assms(1) have "inj_on worker_name (set ws)"
    by (simp add: distinct_map)
  with v(1,3) assms(2) have "v = w"
    by (auto dest: inj_onD)
  with v(2) show "P w" by simp
next
  assume "P w"
  with assms(2) show "worker_name w \<in> set (map worker_name (filter P ws))"
    by auto
qed

lemma worker_in_catalog:
  "fl \<in> fst ` set (FLAVORS cl) \<Longrightarrow>
     new_DockerLatentWorker cl fl pr 5 \<in> set (all_clipos_docker_latent_workers cl)"
  by (cases pr) (auto simp: all_workers_eq workers_of_flavor_def)

lemma workernames_repo_sync:
  "workernames (repo_sync_builder cl) =
     map worker_name (filter (\<lambda>w. flavor w = reference_worker_flavor \<and> \<not> privileged w)
       (all_clipos_docker_latent_workers cl))"
  by (simp add: repo_sync_builder_def)

lemma workernames_clipos:
  "workernames (clipos_builder cl fl) =
     map worker_name (filter (\<lambda>w. flavor w = fl \<and> privileged w)
       (all_clipos_docker_latent_workers cl))"
  by (simp add: clipos_builder_def)

lemma workernames_ondemand:
  "workernames (clipos_ondemand_builder cl) =
     map worker_name (filter (\<lambda>w. flavor w = reference_worker_flavor \<and> privileged w)
       (all_clipos_docker_latent_workers cl))"
  by (simp add: clipos_ondemand_builder_def privileged_reference_workers_eq)

lemma factory_simps:
  "factory (docker_buildenv_image_builder fl) = BuildDockerImage fl"
  "factory (repo_sync_builder cl) = RepoSyncFromScratchAndArchive"
  "factory (clipos_builder cl fl) = ClipOsProductBuildBuildFactory"
  "factory (clipos_ondemand_builder cl) = ClipOsProductBuildBuildFactory"
  by (simp_all add: docker_buildenv_image_builder_def repo_sync_builder_def clipos_builder_def
      clipos_ondemand_builder_def)

lemma product_builder_tied:
  assumes "b \<in> set (c_builders cl)" and "factory b = ClipOsProductBuildBuildFactory"
    and "reference_worker_flavor \<in> fst ` set (FLAVORS cl)"
  shows "\<exists>fl \<in> fst ` set (FLAVORS cl). workernames b =
     map worker_name (filter (\<lambda>w. flavor w = fl \<and> privileged w)
       (all_clipos_docker_latent_workers cl))"
  using assms(1)
proof (cases rule: builder_cases)
  case (1 fl)
  with assms(2) show ?thesis by (simp add: factory_simps)
next
  case 2
  with assms(2) show ?thesis by (simp add: factory_simps)
next
  case (3 fl)
  then show ?thesis using workernames_clipos by blast
next
  case 4
  then show ?thesis using workernames_ondemand assms(3) by blast
qed

lemma example_flavors:
  "''debian-sid'' \<in> fst ` set (FLAVORS example_clipos)"
  "''fedora'' \<in> fst ` set (FLAVORS example_clipos)"
  by (simp_all add: example_clipos_def)

lemma example_worker_names_distinct:
  "distinct (map worker_name (all_clipos_docker_latent_workers example_clipos))"
  by (simp add: all_workers_example)

text \<open>
  C1, as stated, fails: on the sample package the repo-sync builder, which produces the
  source tree snapshot, is tied to the unprivileged worker of the reference flavor and to
  no other, while the CLIP OS builder, which runs the SDK and cache stages, is tied to
  the privileged one.
\<close>

theorem repo_sync_on_unprivileged_worker:
  "master example_clipos = Inr example_config \<and>
   repo_sync_builder example_clipos \<in> set (builders example_config) \<and>
   workernames (repo_sync_builder example_clipos) = [''debian-sid-unprivileged''] \<and>
   new_DockerLatentWorker example_clipos ''debian-sid'' False 5
     \<in> set (all_clipos_docker_latent_workers example_clipos) \<and>
   worker_name (new_DockerLatentWorker example_clipos ''debian-sid'' False 5)
     \<in> set (workernames (repo_sync_builder example_clipos)) \<and>
   \<not> privileged (new_DockerLatentWorker example_clipos ''debian-sid'' False 5) \<and>
   clipos_builder example_clipos ''debian-sid'' \<in> set (builders example_config) \<and>
   workernames (clipos_builder example_clipos ''debian-sid'') = [''debian-sid-privileged'']"
proof -
  have "repo_sync_builder example_clipos \<in> set (builders example_config)"
    and "clipos_builder example_clipos ''debian-sid'' \<in> set (builders example_config)"
    by (simp_all add: example_config_def c_builders_def clipos_on_all_flavors_builders_eq)
      (simp add: example_clipos_def)
  moreover have "workernames (repo_sync_builder example_clipos) = [''debian-sid-unprivileged'']"
    and "workernames (clipos_builder example_clipos ''debian-sid'') = [''debian-sid-privileged'']"
    by (simp_all add: workernames_repo_sync workernames_clipos all_workers_example
        reference_worker_flavor_def)
  moreover have "worker_name (new_DockerLatentWorker example_clipos ''debian-sid'' False 5)
      = ''debian-sid-unprivileged''"
    and "\<not> privileged (new_DockerLatentWorker example_clipos ''debian-sid'' False 5)"
    by (simp_all add: new_DockerLatentWorker_def example_clipos_def)
  ultimately show ?thesis
    using master_example worker_in_catalog [OF example_flavors(1), of False] by simp
qed

text \<open>
  C1, amended. The privilege is fixed per builder, not per stage kind. The repo-sync
  builder is registered and tied to at least one worker, and a latent worker is tied to it
  exactly when it is the unprivileged worker of the reference flavor. Every registered
  builder that runs the CLIP OS product build (SDK, cache and build result) is tied to at
  least one worker, and only to privileged ones.
\<close>

theorem builders_privilege:
  assumes "master cl = Inr c"
    and "distinct (map worker_name (all_clipos_docker_latent_workers cl))"
  shows "repo_sync_builder cl \<in> set (builders c) \<and>
         workernames (repo_sync_builder cl) \<noteq> [] \<and>
         (\<forall>w \<in> set (all_clipos_docker_latent_workers cl).
            worker_name w \<in> set (workernames (repo_sync_builder cl)) \<longleftrightarrow>
              flavor w = reference_worker_flavor \<and> \<not> privileged w) \<and>
         (\<forall>b \<in> set (builders c). factory b = ClipOsProductBuildBuildFactory \<longrightarrow>
            workernames b \<noteq> [] \<and>
            (\<forall>w \<in> set (all_clipos_docker_latent_workers cl).
               worker_name w \<in> set (workernames b) \<longrightarrow> privileged w))"
proof -
  let ?ws = "all_clipos_docker_latent_workers cl"
  from assms(1) have fl: "reference_worker_flavor \<in> fst ` set (FLAVORS cl)"
    and bc: "builders c = c_builders cl"
    by (simp_all add: master_Inr)
  have 1: "repo_sync_builder cl \<in> set (c_builders cl)"
    by (simp add: c_builders_def)
  have nonempty: "map worker_name (filter (\<lambda>w. flavor w = f \<and> privileged w = pr) ?ws) \<noteq> []"
    if "f \<in> fst ` set (FLAVORS cl)" for f pr
  proof -
    have "new_DockerLatentWorker cl f pr 5 \<in> set (filter (\<lambda>w. flavor w = f \<and> privileged w = pr) ?ws)"
      using worker_in_catalog [OF that, of pr] by (simp add: new_DockerLatentWorker_def)
    then show ?thesis by (auto simp: filter_empty_conv)
  qed
  from nonempty [OF fl, of False] have 2: "workernames (repo_sync_builder cl) \<noteq> []"
    by (simp add: workernames_repo_sync)
  have 3: "worker_name w \<in> set (workernames (repo_sync_builder cl)) \<longleftrightarrow>
              flavor w = reference_worker_flavor \<and> \<not> privileged w"
    if "w \<in> set ?ws" for w
    unfolding workernames_repo_sync using assms(2) that by (rule tied_iff)
  have 4: "workernames b \<noteq> [] \<and> (\<forall>w \<in> set ?ws. worker_name w \<in> set (workernames b) \<longrightarrow> privileged w)"
    if "b \<in> set (c_builders cl)" "factory b = ClipOsProductBuildBuildFactory" for b
  proof -
    from product_builder_tied [OF that fl] obtain f where f: "f \<in> fst ` set (FLAVORS cl)"
      and wn: "workernames b = map worker_name (filter (\<lambda>w. flavor w = f \<and> privileged w) ?ws)"
      by blast
    from nonempty [OF f, of True] have "workernames b \<noteq> []"
      by (simp add: wn)
    moreover have "privileged w" if "w \<in> set ?ws" "worker_name w \<in> set (workernames b)" for w
      using tied_iff [OF assms(2) that(1), of "\<lambda>w. flavor w = f \<and> privileged w"] that(2)
      unfolding wn by blast
    ultimately show ?thesis by blast
  qed
  from 1 2 3 4 show ?thesis
    unfolding bc by (intro conjI ballI impI) blast+
qed

theorem builders_privilege_witness:
  "master example_clipos = Inr example_config \<and>
   distinct (map worker_name (all_clipos_docker_latent_workers example_clipos)) \<and>
   repo_sync_builder example_clipos \<in> set (builders example_config) \<and>
   new_DockerLatentWorker example_clipos ''debian-sid'' True 5
     \<in> set (all_clipos_docker_latent_workers example_clipos) \<and>
   worker_name (new_DockerLatentWorker example_clipos ''debian-sid'' True 5)
     \<notin> set (workernames (repo_sync_builder example_clipos)) \<and>
   clipos_builder example_clipos ''fedora'' \<in> set (builders example_config) \<and>
   factory (clipos_builder example_clipos ''fedora'') = ClipOsProductBuildBuildFactory \<and>
   workernames (clipos_builder example_clipos ''fedora'') \<noteq> [] \<and>
   new_DockerLatentWorker example_clipos ''fedora'' False 5
     \<in> set (all_clipos_docker_latent_workers example_clipos) \<and>
   worker_name (new_DockerLatentWorker example_clipos ''fedora'' False 5)
     \<notin> set (workernames (clipos_builder example_clipos ''fedora''))"
proof -
  let ?ws = "all_clipos_docker_latent_workers example_clipos"
  let ?b = "clipos_builder example_clipos ''fedora''"
  note t = builders_privilege [OF master_example example_worker_names_distinct]
  have p: "new_DockerLatentWorker example_clipos ''debian-sid'' True 5 \<in> set ?ws"
    and u: "new_DockerLatentWorker example_clipos ''fedora'' False 5 \<in> set ?ws"
    by (rule worker_in_catalog, rule example_flavors)+
  have b: "?b \<in> set (builders example_config)"
    by (simp add: example_config_def c_builders_def clipos_on_all_flavors_builders_eq)
      (simp add: example_clipos_def)
  have f: "factory ?b = ClipOsProductBuildBuildFactory"
    by (rule factory_simps)
  from t have r: "repo_sync_builder example_clipos \<in> set (builders example_config)"
    by blast
  from t p have "worker_name (new_DockerLatentWorker example_clipos ''debian-sid'' True 5)
       \<in> set (workernames (repo_sync_builder example_clipos)) \<longleftrightarrow>
     flavor (new_DockerLatentWorker example_clipos ''debian-sid'' True 5) = reference_worker_flavor \<and>
     \<not> privileged (new_DockerLatentWorker example_clipos ''debian-sid'' True 5)"
    by blast
  then have 1: "worker_name (new_DockerLatentWorker example_clipos ''debian-sid'' True 5)
       \<notin> set (workernames (repo_sync_builder example_clipos))"
    by (simp add: new_DockerLatentWorker_def)
  from t b f have ne: "workernames ?b \<noteq> []"
    and priv: "\<And>w. w \<in> set ?ws \<Longrightarrow> worker_name w \<in> set (workernames ?b) \<Longrightarrow> privileged w"
    by blast+
  from priv [OF u] have 2: "worker_name (new_DockerLatentWorker example_clipos ''fedora'' False 5)
     \<notin> set (workernames ?b)"
    by (auto simp: new_DockerLatentWorker_def)
  from master_example example_worker_names_distinct r p 1 b f ne u 2 show ?thesis
    by (intro conjI)
qed


end
